theory Spec2Isabelle
  imports Complex_Main
begin

section \<open>Conventions\<close>

text \<open>
  The development embeds \<^verbatim>\<open>sapphire/clusters.py\<close> and
  \<^verbatim>\<open>sapphire/simulations/groundparticles.py\<close>.

  \<^item> Python floats are read as \<^typ>\<open>real\<close>, Python ints and longs as \<^typ>\<open>int\<close>.
  \<^item> An exception is a value \<open>Inl e\<close> of a result type \<open>error + 'a\<close>.
  \<^item> The objects point at their owner (\<^verbatim>\<open>detector.station\<close>,
    \<^verbatim>\<open>station.cluster\<close>). Here a method that follows such a reference takes
    the owner as an explicit argument, in the order cluster, station, detector, so that a
    change of the cluster pose is seen by every later query.
  \<^item> Names with a leading underscore lose it (\<^verbatim>\<open>_add_station\<close> is
    \<open>BaseCluster_add_station\<close>), and \<^verbatim>\<open>__init__\<close> of a class \<open>K\<close> is \<open>K_init\<close>.
\<close>

datatype error =
    UnknownDetectorOrientation string
  | AttributeError string
  | KeyError string
  | TypeError string
  | IndexError
  | ValueError

section \<open>clusters.py\<close>

subsection \<open>Data\<close>

record detector =
  det_x :: real
  det_y :: real
  orientation :: string

record station =
  station_id :: nat
  position :: "real \<times> real"
  angle :: real
  detectors :: "detector list option"

record cluster =
  cl_x :: real
  cl_y :: real
  cl_alpha :: real
  stations :: "station list option"

subsection \<open>Detector\<close>

definition detector_size :: "real \<times> real" where
  "detector_size = (1 / 2, 1)"

definition Detector_init :: "real \<Rightarrow> real \<Rightarrow> string \<Rightarrow> error + detector" where
  "Detector_init x y orientation' =
     Inr \<lparr>det_x = x, det_y = y, orientation = orientation'\<rparr>"

definition Detector_get_area :: "detector \<Rightarrow> real" where
  "Detector_get_area d = fst detector_size * snd detector_size"

subsection \<open>Cluster pose\<close>

definition BaseCluster_init :: "real \<times> real \<Rightarrow> real \<Rightarrow> cluster" where
  "BaseCluster_init position' angle' =
     \<lparr>cl_x = fst position', cl_y = snd position', cl_alpha = angle', stations = None\<rparr>"

definition BaseCluster_get_xyalpha_coordinates :: "cluster \<Rightarrow> real \<times> real \<times> real" where
  "BaseCluster_get_xyalpha_coordinates c = (cl_x c, cl_y c, cl_alpha c)"

definition BaseCluster_set_xyalpha_coordinates ::
  "real \<Rightarrow> real \<Rightarrow> real \<Rightarrow> cluster \<Rightarrow> cluster" where
  "BaseCluster_set_xyalpha_coordinates x y alpha c =
     c\<lparr>cl_x := x, cl_y := y, cl_alpha := alpha\<rparr>"

definition BaseCluster_set_rphialpha_coordinates ::
  "real \<Rightarrow> real \<Rightarrow> real \<Rightarrow> cluster \<Rightarrow> cluster" where
  "BaseCluster_set_rphialpha_coordinates r phi alpha c =
     c\<lparr>cl_x := r * cos phi, cl_y := r * sin phi, cl_alpha := alpha\<rparr>"

subsection \<open>Station\<close>

definition Station_add_detector ::
  "station \<Rightarrow> real \<Rightarrow> real \<Rightarrow> string \<Rightarrow> error + station" where
  "Station_add_detector s x y orientation' =
     (case Detector_init x y orientation' of
        Inl e \<Rightarrow> Inl e
      | Inr d \<Rightarrow>
          Inr (s\<lparr>detectors :=
                 Some ((case detectors s of None \<Rightarrow> [] | Some ds \<Rightarrow> ds) @ [d])\<rparr>))"

text \<open>The loop \<^verbatim>\<open>for x, y, orientation in detectors\<close> of \<^verbatim>\<open>Station.__init__\<close>.\<close>

fun Station_add_detectors ::
  "station \<Rightarrow> (real \<times> real \<times> string) list \<Rightarrow> error + station" where
  "Station_add_detectors s [] = Inr s"
| "Station_add_detectors s ((x, y, orientation') # rest) =
     (case Station_add_detector s x y orientation' of
        Inl e \<Rightarrow> Inl e
      | Inr s' \<Rightarrow> Station_add_detectors s' rest)"

definition Station_init ::
  "nat \<Rightarrow> real \<times> real \<Rightarrow> real \<Rightarrow> (real \<times> real \<times> string) list \<Rightarrow> error + station" where
  "Station_init station_id' position' angle' detectors' =
     Station_add_detectors
       \<lparr>station_id = station_id', position = position', angle = angle', detectors = None\<rparr>
       detectors'"

definition Station_get_xyalpha_coordinates :: "cluster \<Rightarrow> station \<Rightarrow> real \<times> real \<times> real" where
  "Station_get_xyalpha_coordinates c s =
     (case BaseCluster_get_xyalpha_coordinates c of (X, Y, alpha) \<Rightarrow>
      case position s of (sx, sy) \<Rightarrow>
        let xp = sx * cos alpha - sy * sin alpha;
            yp = sx * sin alpha + sy * cos alpha;
            x = X + xp;
            y = Y + yp;
            angle' = alpha + angle s
        in (x, y, angle'))"

definition BaseCluster_add_station ::
  "real \<times> real \<Rightarrow> real \<Rightarrow> (real \<times> real \<times> string) list \<Rightarrow> cluster \<Rightarrow> error + cluster" where
  "BaseCluster_add_station position' angle' detectors' c =
     (let sts = (case stations c of None \<Rightarrow> [] | Some sts \<Rightarrow> sts);
          station_id' = length sts + 1
      in case Station_init station_id' position' angle' detectors' of
           Inl e \<Rightarrow> Inl e
         | Inr s \<Rightarrow> Inr (c\<lparr>stations := Some (sts @ [s])\<rparr>))"

subsection \<open>Detector geometry\<close>

definition Detector_get_xy_coordinates :: "cluster \<Rightarrow> station \<Rightarrow> detector \<Rightarrow> real \<times> real" where
  "Detector_get_xy_coordinates c s d =
     (case Station_get_xyalpha_coordinates c s of (X, Y, alpha) \<Rightarrow>
        let sina = sin alpha;
            cosa = cos alpha;
            x = det_x d * cosa - det_y d * sina;
            y = det_x d * sina + det_y d * cosa
        in (X + x, Y + y))"

definition Detector_get_corners ::
  "cluster \<Rightarrow> station \<Rightarrow> detector \<Rightarrow> error + (real \<times> real) list" where
  "Detector_get_corners c s d =
     (case Station_get_xyalpha_coordinates c s of (X, Y, alpha) \<Rightarrow>
        let x = det_x d;
            y = det_y d;
            dx = fst detector_size / 2;
            dy = snd detector_size / 2
        in case (if orientation d = ''UD'' then
                   Inr [(x - dx, y - dy), (x + dx, y - dy), (x + dx, y + dy), (x - dx, y + dy)]
                 else if orientation d = ''LR'' then
                   Inr [(x - dy, y - dx), (x + dy, y - dx), (x + dy, y + dx), (x - dy, y + dx)]
                 else Inl (UnknownDetectorOrientation (orientation d))) of
             Inl e \<Rightarrow> Inl e
           | Inr corners \<Rightarrow>
               let sina = sin alpha;
                   cosa = cos alpha;
                   corners' = map (\<lambda>(x, y). (x * cosa - y * sina, x * sina + y * cosa)) corners
               in Inr (map (\<lambda>(x, y). (X + x, Y + y)) corners'))"

subsection \<open>The single-station cluster\<close>

definition SingleStation_init :: "real \<Rightarrow> error + cluster" where
  "SingleStation_init station_size =
     (let c = BaseCluster_init (0, 0) 0;
          a = station_size / 2;
          b = a / 3 * sqrt 3;
          detectors' = [(0, 2 * b, ''UD''), (0, 0, ''UD''), (- a, - b, ''LR''), (a, - b, ''LR'')]
      in BaseCluster_add_station (0, 0) 0 detectors' c)"

subsection \<open>The composition rule, as the specification words it\<close>

text \<open>
  A pose is a position and a rotation. The child's local offset is rotated by the parent's
  absolute rotation, then translated by the parent's absolute position; the angles add.
\<close>

definition rotate :: "real \<Rightarrow> real \<times> real \<Rightarrow> real \<times> real" where
  "rotate a p = (fst p * cos a - snd p * sin a, fst p * sin a + snd p * cos a)"

definition compose_pose :: "real \<times> real \<times> real \<Rightarrow> real \<times> real \<times> real \<Rightarrow> real \<times> real \<times> real" where
  "compose_pose parent child =
     (case parent of (X, Y, A) \<Rightarrow>
      case child of (x, y, a) \<Rightarrow>
        (X + fst (rotate A (x, y)), Y + snd (rotate A (x, y)), A + a))"

definition station_local_pose :: "station \<Rightarrow> real \<times> real \<times> real" where
  "station_local_pose s = (fst (position s), snd (position s), angle s)"

section \<open>groundparticles.py\<close>

subsection \<open>Numbers, rows and observables\<close>

text \<open>A Python number held in a dictionary of observables: an int or a float.\<close>

datatype pynum = PyInt int | PyFloat real

fun num_val :: "pynum \<Rightarrow> real" where
  "num_val (PyInt i) = of_int i"
| "num_val (PyFloat r) = r"

text \<open>\<^verbatim>\<open>int(v)\<close> on a float: truncation towards zero.\<close>

definition py_int :: "real \<Rightarrow> int" where
  "py_int v = (if 0 \<le> v then \<lfloor>v\<rfloor> else \<lceil>v\<rceil>)"

text \<open>
  The conversion \<^verbatim>\<open>%f\<close> prints a number with six decimals, rounded to the nearest,
  a tie to the even digit; the query then reads that decimal. \<open>fmt_f v\<close> is the value of the
  printed decimal.
\<close>

definition fmt_f :: "real \<Rightarrow> real" where
  "fmt_f v =
     (let s = v * 1000000;
          f = \<lfloor>s\<rfloor>;
          r = s - of_int f
      in of_int (if r < 1 / 2 then f
                 else if 1 / 2 < r then f + 1
                 else if even f then f else f + 1) / 1000000)"

text \<open>The conversion \<^verbatim>\<open>%d\<close> of a natural number.\<close>

fun fmt_d :: "nat \<Rightarrow> string" where
  "fmt_d k =
     (if k < 10 then [char_of (48 + k)]
      else fmt_d (k div 10) @ [char_of (48 + k mod 10)])"

declare fmt_d.simps [simp del]

text \<open>A row of the table \<^verbatim>\<open>/groundparticles\<close>; the columns \<^verbatim>\<open>x, y, t\<close> carry the prefix \<open>row_\<close>.\<close>

record particle_row =
  row_x :: real
  row_y :: real
  row_t :: real
  particle_id :: int
  p_x :: real
  p_y :: real
  p_z :: real

text \<open>The dictionary \<^verbatim>\<open>{'n': ..., 't': ...}\<close> a detector response returns.\<close>

record observables =
  obs_n :: pynum
  obs_t :: pynum

subsection \<open>Shower parameters\<close>

record event_header =
  eh_zenith :: real
  eh_azimuth :: real
  eh_energy :: real
  eh_particle :: int

record shower_parameters =
  ext_timestamp :: int
  core_pos :: "real \<times> real"
  azimuth :: real
  zenith :: real
  shower_size :: real
  energy :: real
  particle :: int

text \<open>
  The lines of \<^verbatim>\<open>generate_shower_parameters\<close> that add the Corsika azimuth to the
  generated \<^verbatim>\<open>alpha\<close>.
\<close>

definition shower_azimuth :: "real \<Rightarrow> real \<Rightarrow> real" where
  "shower_azimuth alpha header_azimuth =
     (let shower_azimuth' = alpha + header_azimuth
      in if shower_azimuth' > pi then shower_azimuth' - 2 * pi
         else if shower_azimuth' \<le> - pi then shower_azimuth' + 2 * pi
         else shower_azimuth')"

text \<open>
  The methods the class body of \<^verbatim>\<open>BaseCluster\<close> defines that take numbers and change
  the cluster, looked up by name as Python looks an attribute up. No other name of the
  class is such a method.
\<close>

definition BaseCluster_setter ::
  "string \<Rightarrow> (real list \<Rightarrow> cluster \<Rightarrow> error + cluster) option" where
  "BaseCluster_setter name =
     (if name = ''set_xyalpha_coordinates'' then
        Some (\<lambda>args c. case args of
                [x, y, alpha] \<Rightarrow> Inr (BaseCluster_set_xyalpha_coordinates x y alpha c)
              | _ \<Rightarrow> Inl (TypeError name))
      else if name = ''set_rphialpha_coordinates'' then
        Some (\<lambda>args c. case args of
                [r, phi, alpha] \<Rightarrow> Inr (BaseCluster_set_rphialpha_coordinates r phi alpha c)
              | _ \<Rightarrow> Inl (TypeError name))
      else None)"

definition prepare_cluster_for_shower ::
  "real \<Rightarrow> real \<Rightarrow> real \<Rightarrow> cluster \<Rightarrow> error + cluster" where
  "prepare_cluster_for_shower x y alpha c =
     (let xp = x * cos (- alpha) - y * sin (- alpha);
          yp = x * sin (- alpha) + y * cos (- alpha)
      in case BaseCluster_setter ''set_coordinates'' of
           None \<Rightarrow> Inl (AttributeError ''set_coordinates'')
         | Some m \<Rightarrow> m [- xp, - yp, 0, - alpha] c)"

text \<open>
  One turn of the loop of \<^verbatim>\<open>generate_shower_parameters\<close>, for the shower index \<open>i\<close>
  and the three random draws: \<open>u\<close> from \<^verbatim>\<open>uniform(0, R ** 2)\<close>, \<open>phi\<close> and \<open>alpha\<close>
  from \<^verbatim>\<open>uniform(-pi, pi)\<close>.
\<close>

definition generate_shower_parameters_iter ::
  "event_header \<Rightarrow> real \<Rightarrow> nat \<Rightarrow> real \<times> real \<times> real \<Rightarrow> cluster
     \<Rightarrow> error + (shower_parameters \<times> cluster)" where
  "generate_shower_parameters_iter header n_electrons_levels i draws c =
     (case draws of (u, phi, alpha) \<Rightarrow>
        let r = sqrt u;
            x = r * cos phi;
            y = r * sin phi;
            sp = \<lparr>ext_timestamp = (1000000000 + int i) * 1000000000,
                  core_pos = (x, y),
                  azimuth = shower_azimuth alpha (eh_azimuth header),
                  zenith = eh_zenith header,
                  shower_size = n_electrons_levels,
                  energy = eh_energy header,
                  particle = eh_particle header\<rparr>
        in case prepare_cluster_for_shower x y alpha c of
             Inl e \<Rightarrow> Inl e
           | Inr c' \<Rightarrow> Inr (sp, c'))"

subsection \<open>Detector response: shared steps\<close>

text \<open>The loop \<^verbatim>\<open>detected[i] += transporttimes[i]\<close> over \<^verbatim>\<open>range(n_detected)\<close>.\<close>

fun add_transporttimes :: "real list \<Rightarrow> real list \<Rightarrow> error + real list" where
  "add_transporttimes [] tts = Inr []"
| "add_transporttimes (d # ds) [] = Inl IndexError"
| "add_transporttimes (d # ds) (tt # tts) =
     (case add_transporttimes ds tts of
        Inl e \<Rightarrow> Inl e
      | Inr ds' \<Rightarrow> Inr ((d + tt) # ds'))"

fun py_min :: "real list \<Rightarrow> error + real" where
  "py_min [] = Inl ValueError"
| "py_min (v # vs) = Inr (fold min vs v)"

subsection \<open>Square approximation\<close>

text \<open>
  The query string of \<^verbatim>\<open>GroundParticlesSimulation.simulate_detector_response\<close>, as a
  predicate on a row. In a condition the table's columns \<^verbatim>\<open>x\<close> and \<^verbatim>\<open>y\<close> are
  the row's; the four bounds are the printed arguments
  \<^verbatim>\<open>(x - detector_boundary, x + detector_boundary, y - detector_boundary, x + detector_boundary)\<close>.
\<close>

definition GroundParticlesSimulation_query :: "real \<Rightarrow> real \<Rightarrow> particle_row \<Rightarrow> bool" where
  "GroundParticlesSimulation_query x y row =
     (let detector_boundary = 0.3535534
      in row_x row \<ge> fmt_f (x - detector_boundary) \<and> row_x row \<le> fmt_f (x + detector_boundary)
         \<and> row_y row \<ge> fmt_f (y - detector_boundary) \<and> row_y row \<le> fmt_f (x + detector_boundary)
         \<and> particle_id row \<ge> 2 \<and> particle_id row \<le> 6)"

text \<open>The rows \<^verbatim>\<open>self.groundparticles.where(query)\<close> yields, in table order.\<close>

definition GroundParticlesSimulation_where ::
  "particle_row list \<Rightarrow> cluster \<Rightarrow> station \<Rightarrow> detector \<Rightarrow> particle_row list" where
  "GroundParticlesSimulation_where groundparticles c s d =
     (case Detector_get_xy_coordinates c s d of (x, y) \<Rightarrow>
        filter (GroundParticlesSimulation_query x y) groundparticles)"

text \<open>
  \<open>simulate_signal_transport_time\<close> belongs to the base class \<^verbatim>\<open>HiSPARCSimulation\<close>,
  which draws the delays at random; here it is an argument.
\<close>

definition GroundParticlesSimulation_simulate_detector_response ::
  "particle_row list \<Rightarrow> (nat \<Rightarrow> real list) \<Rightarrow> cluster \<Rightarrow> station \<Rightarrow> detector
     \<Rightarrow> error + observables" where
  "GroundParticlesSimulation_simulate_detector_response groundparticles
       simulate_signal_transport_time c s d =
     (let detected = map row_t (GroundParticlesSimulation_where groundparticles c s d)
      in if detected \<noteq> [] then
           let n_detected = length detected;
               transporttimes = simulate_signal_transport_time n_detected
           in case add_transporttimes detected transporttimes of
                Inl e \<Rightarrow> Inl e
              | Inr detected' \<Rightarrow>
                  (case py_min detected' of
                     Inl e \<Rightarrow> Inl e
                   | Inr m \<Rightarrow> Inr \<lparr>obs_n = PyInt (int n_detected), obs_t = PyFloat m\<rparr>)
         else Inr \<lparr>obs_n = PyFloat 0, obs_t = PyInt (- 999)\<rparr>)"

subsection \<open>Rotated rectangle\<close>

text \<open>
  The line expression \<^verbatim>\<open>get_line_boundary_eqs\<close> returns as a string:
  \<^verbatim>\<open>"y - %f * x" % a\<close> or \<^verbatim>\<open>"x"\<close>.
\<close>

datatype line_expr = Line_y_minus_a_x real | Line_x

fun line_value :: "line_expr \<Rightarrow> particle_row \<Rightarrow> real" where
  "line_value (Line_y_minus_a_x a) row = row_y row - a * row_x row"
| "line_value Line_x row = row_x row"

definition get_line_boundary_eqs ::
  "real \<times> real \<Rightarrow> real \<times> real \<Rightarrow> real \<times> real \<Rightarrow> real \<times> line_expr \<times> real" where
  "get_line_boundary_eqs p0 p1 p2 =
     (case p0 of (x0, y0) \<Rightarrow>
      case p1 of (x1, y1) \<Rightarrow>
      case p2 of (x2, y2) \<Rightarrow>
      case (if \<not> (x0 = x1) then
              let a = (y1 - y0) / (x1 - x0);
                  b1 = y0 - a * x0;
                  b2 = y2 - a * x2
              in (b1, Line_y_minus_a_x (fmt_f a), b2)
            else (x0, Line_x, x2)) of
        (b1, line, b2) \<Rightarrow>
          if b1 > b2 then (b2, line, b1) else (b1, line, b2))"

text \<open>
  The query string of \<^verbatim>\<open>DetectorBoundarySimulation.simulate_detector_response\<close>. The
  names \<^verbatim>\<open>b11, b12, b21, b22\<close> in the string are not columns: the table resolves them
  to the caller's local variables, whose values are not printed.
\<close>

definition DetectorBoundarySimulation_query ::
  "real \<Rightarrow> real \<Rightarrow> real \<times> line_expr \<times> real \<Rightarrow> real \<times> line_expr \<times> real \<Rightarrow> particle_row \<Rightarrow> bool" where
  "DetectorBoundarySimulation_query x y eqs1 eqs2 row =
     (case eqs1 of (b11, line1, b12) \<Rightarrow>
      case eqs2 of (b21, line2, b22) \<Rightarrow>
      let detector_boundary = 0.6
      in row_x row \<ge> fmt_f (x - detector_boundary) \<and> row_x row \<le> fmt_f (x + detector_boundary)
         \<and> row_y row \<ge> fmt_f (y - detector_boundary) \<and> row_y row \<le> fmt_f (x + detector_boundary)
         \<and> b11 < line_value line1 row \<and> line_value line1 row < b12
         \<and> b21 < line_value line2 row \<and> line_value line2 row < b22
         \<and> particle_id row \<ge> 2 \<and> particle_id row \<le> 6)"

definition DetectorBoundarySimulation_where ::
  "particle_row list \<Rightarrow> cluster \<Rightarrow> station \<Rightarrow> detector \<Rightarrow> error + particle_row list" where
  "DetectorBoundarySimulation_where groundparticles c s d =
     (case Detector_get_xy_coordinates c s d of (x, y) \<Rightarrow>
      case Detector_get_corners c s d of
        Inl e \<Rightarrow> Inl e
      | Inr corners \<Rightarrow>
          (case corners of
             [c0, c1, c2, c3] \<Rightarrow>
               Inr (filter (DetectorBoundarySimulation_query x y
                              (get_line_boundary_eqs c0 c1 c2)
                              (get_line_boundary_eqs c1 c2 c3)) groundparticles)
           | _ \<Rightarrow> Inl IndexError))"

definition DetectorBoundarySimulation_simulate_detector_response ::
  "particle_row list \<Rightarrow> (nat \<Rightarrow> real list) \<Rightarrow> cluster \<Rightarrow> station \<Rightarrow> detector
     \<Rightarrow> error + observables" where
  "DetectorBoundarySimulation_simulate_detector_response groundparticles
       simulate_signal_transport_time c s d =
     (case DetectorBoundarySimulation_where groundparticles c s d of
        Inl e \<Rightarrow> Inl e
      | Inr rows \<Rightarrow>
          let detected = map row_t rows
          in if detected \<noteq> [] then
               let n_detected = length detected;
                   transporttimes = simulate_signal_transport_time n_detected
               in case add_transporttimes detected transporttimes of
                    Inl e \<Rightarrow> Inl e
                  | Inr detected' \<Rightarrow>
                      (case py_min detected' of
                         Inl e \<Rightarrow> Inl e
                       | Inr m \<Rightarrow> Inr \<lparr>obs_n = PyInt (int n_detected), obs_t = PyFloat m\<rparr>)
             else Inr \<lparr>obs_n = PyFloat 0, obs_t = PyInt (- 999)\<rparr>)"

subsection \<open>Momentum-weighted signal\<close>

definition DetectorSignalSimulation_query :: "real \<Rightarrow> real \<Rightarrow> particle_row \<Rightarrow> bool" where
  "DetectorSignalSimulation_query x y row =
     (let detector_boundary = 0.3535534
      in row_x row \<ge> fmt_f (x - detector_boundary) \<and> row_x row \<le> fmt_f (x + detector_boundary)
         \<and> row_y row \<ge> fmt_f (y - detector_boundary) \<and> row_y row \<le> fmt_f (x + detector_boundary)
         \<and> particle_id row \<ge> 2 \<and> particle_id row \<le> 6)"

definition DetectorSignalSimulation_where ::
  "particle_row list \<Rightarrow> cluster \<Rightarrow> station \<Rightarrow> detector \<Rightarrow> particle_row list" where
  "DetectorSignalSimulation_where groundparticles c s d =
     (case Detector_get_xy_coordinates c s d of (x, y) \<Rightarrow>
        filter (DetectorSignalSimulation_query x y) groundparticles)"

text \<open>
  \<open>simulate_detector_mips\<close> is a method of \<^verbatim>\<open>HiSPARCSimulation\<close> too, and an argument
  here. \<^verbatim>\<open>np.min(detected, 0)[0]\<close> is the least entry of the first column, the times.
\<close>

definition DetectorSignalSimulation_simulate_detector_response ::
  "particle_row list \<Rightarrow> (nat \<Rightarrow> real list) \<Rightarrow> ((real \<times> real \<times> real) list \<Rightarrow> real)
     \<Rightarrow> cluster \<Rightarrow> station \<Rightarrow> detector \<Rightarrow> error + observables" where
  "DetectorSignalSimulation_simulate_detector_response groundparticles
       simulate_signal_transport_time simulate_detector_mips c s d =
     (let detected = map (\<lambda>row. (row_t row, p_x row, p_y row, p_z row))
                       (DetectorSignalSimulation_where groundparticles c s d)
      in if detected \<noteq> [] then
           let particle_momenta = map snd detected;
               mips = simulate_detector_mips particle_momenta;
               n_detected = length detected;
               transporttimes = simulate_signal_transport_time n_detected
           in case add_transporttimes (map fst detected) transporttimes of
                Inl e \<Rightarrow> Inl e
              | Inr times' \<Rightarrow>
                  (case py_min times' of
                     Inl e \<Rightarrow> Inl e
                   | Inr m \<Rightarrow> Inr \<lparr>obs_n = PyFloat mips, obs_t = PyFloat m\<rparr>)
         else Inr \<lparr>obs_n = PyFloat 0, obs_t = PyInt (- 999)\<rparr>)"

subsection \<open>Trigger and GPS time\<close>

text \<open>\<^verbatim>\<open>sum\<close> of a list of booleans counts the true ones.\<close>

definition py_sum_bools :: "bool list \<Rightarrow> int" where
  "py_sum_bools bs = sum_list (map (\<lambda>b. if b then 1 else 0) bs)"

definition simulate_trigger :: "observables list \<Rightarrow> bool" where
  "simulate_trigger detector_observables =
     (let detectors_hit = map (\<lambda>observables. True)
                            (filter (\<lambda>observables. num_val (obs_n observables) > 0)
                               detector_observables)
      in if py_sum_bools detectors_hit \<ge> 2 then True else False)"

text \<open>
  The comprehension that collects \<^verbatim>\<open>station_observables['t%d' % id]\<close> for the ids with
  \<^verbatim>\<open>station_observables.get('n%d' % id, -1) > 0\<close>.
\<close>

fun arrival_times :: "(string \<rightharpoonup> pynum) \<Rightarrow> nat list \<Rightarrow> error + pynum list" where
  "arrival_times station_observables [] = Inr []"
| "arrival_times station_observables (i # ids) =
     (if num_val (case station_observables (''n'' @ fmt_d i) of
                    None \<Rightarrow> PyInt (- 1) | Some v \<Rightarrow> v) > 0 then
        (case station_observables (''t'' @ fmt_d i) of
           None \<Rightarrow> Inl (KeyError (''t'' @ fmt_d i))
         | Some t \<Rightarrow>
             (case arrival_times station_observables ids of
                Inl e \<Rightarrow> Inl e
              | Inr ts \<Rightarrow> Inr (t # ts)))
      else arrival_times station_observables ids)"

text \<open>
  \<^verbatim>\<open>station.gps_offset\<close> and the draw \<^verbatim>\<open>self.simulate_gps_uncertainty()\<close> are
  arguments. The module has no true division, so \<^verbatim>\<open>/\<close> on two longs is the floor
  division.
\<close>

definition simulate_gps ::
  "(string \<rightharpoonup> pynum) \<Rightarrow> shower_parameters \<Rightarrow> real \<Rightarrow> real \<Rightarrow> error + (string \<rightharpoonup> pynum)" where
  "simulate_gps station_observables shower gps_offset gps_uncertainty =
     (case arrival_times station_observables [1, 2, 3, 4] of
        Inl e \<Rightarrow> Inl e
      | Inr arrival_times' \<Rightarrow>
          if length arrival_times' > 1 then
            let trigger_time = sort_key num_val arrival_times' ! 1;
                ext_timestamp' = ext_timestamp shower
                   + py_int (num_val trigger_time + gps_offset + gps_uncertainty);
                timestamp = ext_timestamp' div 1000000000;
                nanoseconds = ext_timestamp' mod 1000000000
            in Inr (station_observables
                      (''ext_timestamp'' \<mapsto> PyInt ext_timestamp',
                       ''timestamp'' \<mapsto> PyInt timestamp,
                       ''nanoseconds'' \<mapsto> PyInt nanoseconds))
          else Inr station_observables)"

subsection \<open>The qualifying detectors, as the specification words them\<close>

text \<open>
  Detector \<open>i\<close> of a station qualifies when the station's observables hold an \<open>n\<close> for it
  that is greater than zero. The qualifying arrival times are the \<open>t\<close> of the qualifying
  detectors, in the order of the detector index.
\<close>

definition reports_hit :: "(string \<rightharpoonup> pynum) \<Rightarrow> nat \<Rightarrow> bool" where
  "reports_hit station_observables i =
     (case station_observables (''n'' @ fmt_d i) of
        None \<Rightarrow> False
      | Some v \<Rightarrow> num_val v > 0)"

definition qualifying :: "(string \<rightharpoonup> pynum) \<Rightarrow> nat list" where
  "qualifying station_observables = filter (reports_hit station_observables) [1, 2, 3, 4]"

definition qualifying_times :: "(string \<rightharpoonup> pynum) \<Rightarrow> pynum list" where
  "qualifying_times station_observables =
     List.map_filter (\<lambda>i. station_observables (''t'' @ fmt_d i)) (qualifying station_observables)"

text \<open>Every qualifying detector has its arrival time in the dictionary.\<close>

definition times_present :: "(string \<rightharpoonup> pynum) \<Rightarrow> bool" where
  "times_present station_observables =
     list_all (\<lambda>i. station_observables (''t'' @ fmt_d i) \<noteq> None) (qualifying station_observables)"

subsection \<open>Concrete geometry and rows for the examples\<close>

definition origin_cluster :: cluster where
  "origin_cluster = BaseCluster_init (0, 0) 0"

definition detector_at_centre :: "string \<Rightarrow> detector" where
  "detector_at_centre orientation' = \<lparr>det_x = 0, det_y = 0, orientation = orientation'\<rparr>"

definition station_at :: "real \<times> real \<Rightarrow> station" where
  "station_at position' =
     \<lparr>station_id = 1, position = position', angle = 0,
      detectors = Some [detector_at_centre ''UD'']\<rparr>"

definition row_at :: "real \<Rightarrow> real \<Rightarrow> int \<Rightarrow> particle_row" where
  "row_at x y particle_id' =
     \<lparr>row_x = x, row_y = y, row_t = 0, particle_id = particle_id',
      p_x = 0, p_y = 0, p_z = 1\<rparr>"

definition no_delay :: "nat \<Rightarrow> real list" where
  "no_delay k = replicate k 0"

definition shower_zero :: shower_parameters where
  "shower_zero =
     \<lparr>ext_timestamp = 1000000000 * 1000000000, core_pos = (0, 0), azimuth = 0, zenith = 0,
      shower_size = 0, energy = 0, particle = 14\<rparr>"

definition observables_of ::
  "pynum \<Rightarrow> pynum \<Rightarrow> pynum \<Rightarrow> pynum \<Rightarrow> pynum \<Rightarrow> pynum \<Rightarrow> pynum \<Rightarrow> pynum \<Rightarrow> (string \<rightharpoonup> pynum)" where
  "observables_of n1 n2 n3 n4 t1 t2 t3 t4 =
     [''n1'' \<mapsto> n1, ''n2'' \<mapsto> n2, ''n3'' \<mapsto> n3, ''n4'' \<mapsto> n4,
      ''t1'' \<mapsto> t1, ''t2'' \<mapsto> t2, ''t3'' \<mapsto> t3, ''t4'' \<mapsto> t4]"

subsection \<open>Notions used to state the results\<close>

text \<open>
  The trigger time of a station: the entry at index 1 of the qualifying arrival times sorted
  in ascending order.
\<close>

definition gps_trigger_time :: "(string \<rightharpoonup> pynum) \<Rightarrow> real" where
  "gps_trigger_time station_observables =
     num_val (sort_key num_val (qualifying_times station_observables) ! 1)"

text \<open>The station observables with the three fields of a GPS time stamp \<open>e\<close> added.\<close>

definition with_gps_timestamp :: "(string \<rightharpoonup> pynum) \<Rightarrow> int \<Rightarrow> (string \<rightharpoonup> pynum)" where
  "with_gps_timestamp station_observables e =
     station_observables
       (''ext_timestamp'' \<mapsto> PyInt e,
        ''timestamp'' \<mapsto> PyInt (e div 1000000000),
        ''nanoseconds'' \<mapsto> PyInt (e mod 1000000000))"

text \<open>The particle-type filter of the three queries: an id from 2 to 6.\<close>

definition lepton_range :: "particle_row \<Rightarrow> bool" where
  "lepton_range row = (2 \<le> particle_id row \<and> particle_id row \<le> 6)"

section \<open>Evaluation of the examples\<close>

lemma fmt_d_digits:
  "fmt_d (Suc 0) = ''1''" "fmt_d 1 = ''1''" "fmt_d 2 = ''2''" "fmt_d 3 = ''3''" "fmt_d 4 = ''4''"
  by code_simp+

lemma centre_of_example:
  "Detector_get_xy_coordinates origin_cluster (station_at (px, py)) (detector_at_centre ori)
     = (px, py)"
  by (simp add: Detector_get_xy_coordinates_def Station_get_xyalpha_coordinates_def
      BaseCluster_get_xyalpha_coordinates_def origin_cluster_def BaseCluster_init_def
      station_at_def detector_at_centre_def)

lemma corners_of_example:
  "Detector_get_corners origin_cluster (station_at (px, py)) (detector_at_centre ''UD'')
     = Inr [(px - 1 / 4, py - 1 / 2), (px + 1 / 4, py - 1 / 2),
            (px + 1 / 4, py + 1 / 2), (px - 1 / 4, py + 1 / 2)]"
  by (simp add: Detector_get_corners_def Station_get_xyalpha_coordinates_def
      BaseCluster_get_xyalpha_coordinates_def origin_cluster_def BaseCluster_init_def
      station_at_def detector_at_centre_def detector_size_def)

lemma lines_of_example:
  "get_line_boundary_eqs (px - 1 / 4, py - 1 / 2) (px + 1 / 4, py - 1 / 2) (px + 1 / 4, py + 1 / 2)
     = (py - 1 / 2, Line_y_minus_a_x 0, py + 1 / 2)"
  "get_line_boundary_eqs (px + 1 / 4, py - 1 / 2) (px + 1 / 4, py + 1 / 2) (px - 1 / 4, py + 1 / 2)
     = (px - 1 / 4, Line_x, px + 1 / 4)"
  by (simp_all add: get_line_boundary_eqs_def fmt_f_def Let_def)

lemma boundary_where_example:
  "DetectorBoundarySimulation_where gp origin_cluster (station_at (px, py)) (detector_at_centre ''UD'')
     = Inr (filter (DetectorBoundarySimulation_query px py
                     (py - 1 / 2, Line_y_minus_a_x 0, py + 1 / 2)
                     (px - 1 / 4, Line_x, px + 1 / 4)) gp)"
  by (simp add: DetectorBoundarySimulation_where_def centre_of_example corners_of_example
      lines_of_example)

lemma observables_of_lookup:
  "observables_of n1 n2 n3 n4 t1 t2 t3 t4 ''n1'' = Some n1"
  "observables_of n1 n2 n3 n4 t1 t2 t3 t4 ''n2'' = Some n2"
  "observables_of n1 n2 n3 n4 t1 t2 t3 t4 ''n3'' = Some n3"
  "observables_of n1 n2 n3 n4 t1 t2 t3 t4 ''n4'' = Some n4"
  "observables_of n1 n2 n3 n4 t1 t2 t3 t4 ''t1'' = Some t1"
  "observables_of n1 n2 n3 n4 t1 t2 t3 t4 ''t2'' = Some t2"
  "observables_of n1 n2 n3 n4 t1 t2 t3 t4 ''t3'' = Some t3"
  "observables_of n1 n2 n3 n4 t1 t2 t3 t4 ''t4'' = Some t4"
  by (simp_all add: observables_of_def)

lemma example_keys:
  "qualifying (observables_of n1 n2 n3 n4 t1 t2 t3 t4) =
     (if 0 < num_val n1 then [1] else []) @ (if 0 < num_val n2 then [2] else [])
     @ (if 0 < num_val n3 then [3] else []) @ (if 0 < num_val n4 then [4] else [])"
  by (simp add: qualifying_def reports_hit_def fmt_d_digits observables_of_lookup)

lemma example_times:
  "qualifying_times (observables_of (PyInt 1) (PyInt 1) (PyFloat 0) (PyFloat 0) t1 t2 t3 t4) = [t1, t2]"
  by (simp add: qualifying_times_def example_keys List.map_filter_simps fmt_d_digits
      observables_of_lookup)

lemma example_present:
  "times_present (observables_of n1 n2 n3 n4 t1 t2 t3 t4)"
  by (simp add: times_present_def example_keys fmt_d_digits observables_of_lookup)

section \<open>Selection of rows\<close>

text \<open>
  Claim C1. The square approximation selects the rows of the symmetric box
  \<open>x - b \<le> px \<le> x + b\<close>, \<open>y - b \<le> py \<le> y + b\<close> around the detector centre \<open>(x, y)\<close>,
  and the same symmetric box is the first filter of the other two queries. In the code the
  upper bound on the row's \<open>y\<close> is \<open>x + detector_boundary\<close> in all three queries. With the
  detector centred at \<open>(0, 10)\<close> a lepton at the very centre is selected by none of them;
  with the detector centred at \<open>(10, 0)\<close> a lepton five metres north of the centre is selected
  by the square queries.
\<close>

theorem box_upper_y_bound_uses_x:
  "Detector_get_xy_coordinates origin_cluster (station_at (0, 10)) (detector_at_centre ''UD'')
     = (0, 10)
   \<and> GroundParticlesSimulation_where [row_at 0 10 2]
        origin_cluster (station_at (0, 10)) (detector_at_centre ''UD'') = []
   \<and> DetectorBoundarySimulation_where [row_at 0 10 2]
        origin_cluster (station_at (0, 10)) (detector_at_centre ''UD'') = Inr []
   \<and> DetectorSignalSimulation_where [row_at 0 10 2]
        origin_cluster (station_at (0, 10)) (detector_at_centre ''UD'') = []
   \<and> Detector_get_xy_coordinates origin_cluster (station_at (10, 0)) (detector_at_centre ''UD'')
     = (10, 0)
   \<and> GroundParticlesSimulation_where [row_at 10 5 2]
        origin_cluster (station_at (10, 0)) (detector_at_centre ''UD'') = [row_at 10 5 2]
   \<and> DetectorSignalSimulation_where [row_at 10 5 2]
        origin_cluster (station_at (10, 0)) (detector_at_centre ''UD'') = [row_at 10 5 2]"
  by (simp add: centre_of_example boundary_where_example
      GroundParticlesSimulation_where_def DetectorSignalSimulation_where_def
      GroundParticlesSimulation_query_def DetectorSignalSimulation_query_def
      DetectorBoundarySimulation_query_def row_at_def fmt_f_def Let_def)

lemma filter_lepton_range:
  assumes "\<And>row. q row \<Longrightarrow> lepton_range row"
  shows "filter q (filter lepton_range gp) = filter q gp"
proof -
  have "filter q (filter lepton_range gp) = filter (\<lambda>row. lepton_range row \<and> q row) gp"
    by simp
  also have "\<dots> = filter q gp"
    by (rule filter_cong) (auto dest: assms)
  finally show ?thesis .
qed

lemma square_query_range: "GroundParticlesSimulation_query x y row \<Longrightarrow> lepton_range row"
  by (simp add: GroundParticlesSimulation_query_def lepton_range_def Let_def)

lemma signal_query_range: "DetectorSignalSimulation_query x y row \<Longrightarrow> lepton_range row"
  by (simp add: DetectorSignalSimulation_query_def lepton_range_def Let_def)

lemma boundary_query_range:
  "DetectorBoundarySimulation_query x y e1 e2 row \<Longrightarrow> lepton_range row"
  by (cases e1, cases e2)
     (simp add: DetectorBoundarySimulation_query_def lepton_range_def Let_def)

lemma square_where_range:
  "GroundParticlesSimulation_where (filter lepton_range gp) c s d
     = GroundParticlesSimulation_where gp c s d"
proof (cases "Detector_get_xy_coordinates c s d")
  case (Pair x y)
  show ?thesis
    unfolding GroundParticlesSimulation_where_def Pair prod.case
    by (rule filter_lepton_range) (rule square_query_range)
qed

lemma signal_where_range:
  "DetectorSignalSimulation_where (filter lepton_range gp) c s d
     = DetectorSignalSimulation_where gp c s d"
proof (cases "Detector_get_xy_coordinates c s d")
  case (Pair x y)
  show ?thesis
    unfolding DetectorSignalSimulation_where_def Pair prod.case
    by (rule filter_lepton_range) (rule signal_query_range)
qed

lemma boundary_where_range:
  "DetectorBoundarySimulation_where (filter lepton_range gp) c s d
     = DetectorBoundarySimulation_where gp c s d"
proof (cases "Detector_get_xy_coordinates c s d")
  case (Pair x y)
  have "filter (DetectorBoundarySimulation_query x y e1 e2) (filter lepton_range gp)
      = filter (DetectorBoundarySimulation_query x y e1 e2) gp" for e1 e2
    by (rule filter_lepton_range) (rule boundary_query_range)
  then show ?thesis
    unfolding DetectorBoundarySimulation_where_def Pair prod.case
    by (simp split: sum.splits list.splits)
qed

text \<open>
  Claim C2, as amended. A row is selected by any of the three queries only if its particle id
  lies in the range from 2 to 6, and rows outside that range change neither the count \<open>n\<close> nor
  the arrival time \<open>t\<close> of any of the three responses. The range includes the id 4, which the
  queries do not exclude.
\<close>

theorem only_ids_2_to_6_contribute:
  "(row \<in> set (GroundParticlesSimulation_where gp c s d) \<longrightarrow> lepton_range row)
   \<and> (DetectorBoundarySimulation_where gp c s d = Inr rows \<and> row \<in> set rows \<longrightarrow>
        lepton_range row)
   \<and> (row \<in> set (DetectorSignalSimulation_where gp c s d) \<longrightarrow> lepton_range row)
   \<and> GroundParticlesSimulation_simulate_detector_response (filter lepton_range gp) tt c s d
       = GroundParticlesSimulation_simulate_detector_response gp tt c s d
   \<and> DetectorBoundarySimulation_simulate_detector_response (filter lepton_range gp) tt c s d
       = DetectorBoundarySimulation_simulate_detector_response gp tt c s d
   \<and> DetectorSignalSimulation_simulate_detector_response (filter lepton_range gp) tt mips c s d
       = DetectorSignalSimulation_simulate_detector_response gp tt mips c s d"
proof -
  have a: "row \<in> set (GroundParticlesSimulation_where gp c s d) \<longrightarrow> lepton_range row"
    by (auto simp add: GroundParticlesSimulation_where_def split: prod.splits
        dest: square_query_range)
  have b: "DetectorBoundarySimulation_where gp c s d = Inr rows \<and> row \<in> set rows \<longrightarrow>
        lepton_range row"
    by (auto simp add: DetectorBoundarySimulation_where_def
        split: prod.splits sum.splits list.splits dest: boundary_query_range)
  have c: "row \<in> set (DetectorSignalSimulation_where gp c s d) \<longrightarrow> lepton_range row"
    by (auto simp add: DetectorSignalSimulation_where_def split: prod.splits
        dest: signal_query_range)
  have d: "GroundParticlesSimulation_simulate_detector_response (filter lepton_range gp) tt c s d
       = GroundParticlesSimulation_simulate_detector_response gp tt c s d"
    unfolding GroundParticlesSimulation_simulate_detector_response_def square_where_range ..
  have e: "DetectorBoundarySimulation_simulate_detector_response (filter lepton_range gp) tt c s d
       = DetectorBoundarySimulation_simulate_detector_response gp tt c s d"
    unfolding DetectorBoundarySimulation_simulate_detector_response_def boundary_where_range ..
  have f: "DetectorSignalSimulation_simulate_detector_response (filter lepton_range gp) tt mips c s d
       = DetectorSignalSimulation_simulate_detector_response gp tt mips c s d"
    unfolding DetectorSignalSimulation_simulate_detector_response_def signal_where_range ..
  from a b c d e f show ?thesis by blast
qed

text \<open>The theorem applied to a muon (id 3) at the centre of a detector at the origin.\<close>

theorem only_ids_2_to_6_contribute_witness:
  "row_at 0 0 3 \<in> set (GroundParticlesSimulation_where [row_at 0 0 3]
        origin_cluster (station_at (0, 0)) (detector_at_centre ''UD''))
   \<and> DetectorBoundarySimulation_where [row_at 0 0 3]
        origin_cluster (station_at (0, 0)) (detector_at_centre ''UD'') = Inr [row_at 0 0 3]
   \<and> row_at 0 0 3 \<in> set (DetectorSignalSimulation_where [row_at 0 0 3]
        origin_cluster (station_at (0, 0)) (detector_at_centre ''UD''))
   \<and> lepton_range (row_at 0 0 3)"
proof -
  have sel: "GroundParticlesSimulation_where [row_at 0 0 3]
        origin_cluster (station_at (0, 0)) (detector_at_centre ''UD'') = [row_at 0 0 3]"
    "DetectorBoundarySimulation_where [row_at 0 0 3]
        origin_cluster (station_at (0, 0)) (detector_at_centre ''UD'') = Inr [row_at 0 0 3]"
    "DetectorSignalSimulation_where [row_at 0 0 3]
        origin_cluster (station_at (0, 0)) (detector_at_centre ''UD'') = [row_at 0 0 3]"
    by (simp_all add: centre_of_example boundary_where_example
      GroundParticlesSimulation_where_def DetectorSignalSimulation_where_def
      GroundParticlesSimulation_query_def DetectorSignalSimulation_query_def
      DetectorBoundarySimulation_query_def row_at_def fmt_f_def Let_def)
  have "lepton_range (row_at 0 0 3)"
    using only_ids_2_to_6_contribute
      [of "row_at 0 0 3" "[row_at 0 0 3]" origin_cluster "station_at (0, 0)"
          "detector_at_centre ''UD''" "[row_at 0 0 3]"]
    unfolding sel by simp
  then show ?thesis unfolding sel by simp
qed

text \<open>
  A row with particle id 4 at the centre of a detector at the origin is selected by all three
  queries, and is counted: the response reports \<open>n = 1\<close> and the row's time.
\<close>

theorem particle_id_4_selected_counterexample:
  "GroundParticlesSimulation_where [row_at 0 0 4]
        origin_cluster (station_at (0, 0)) (detector_at_centre ''UD'') = [row_at 0 0 4]
   \<and> DetectorBoundarySimulation_where [row_at 0 0 4]
        origin_cluster (station_at (0, 0)) (detector_at_centre ''UD'') = Inr [row_at 0 0 4]
   \<and> DetectorSignalSimulation_where [row_at 0 0 4]
        origin_cluster (station_at (0, 0)) (detector_at_centre ''UD'') = [row_at 0 0 4]
   \<and> GroundParticlesSimulation_simulate_detector_response [row_at 0 0 4] no_delay
        origin_cluster (station_at (0, 0)) (detector_at_centre ''UD'')
     = Inr \<lparr>obs_n = PyInt 1, obs_t = PyFloat 0\<rparr>
   \<and> DetectorBoundarySimulation_simulate_detector_response [row_at 0 0 4] no_delay
        origin_cluster (station_at (0, 0)) (detector_at_centre ''UD'')
     = Inr \<lparr>obs_n = PyInt 1, obs_t = PyFloat 0\<rparr>"
  by (simp add: centre_of_example boundary_where_example
      GroundParticlesSimulation_where_def DetectorSignalSimulation_where_def
      GroundParticlesSimulation_query_def DetectorSignalSimulation_query_def
      DetectorBoundarySimulation_query_def row_at_def fmt_f_def Let_def
      GroundParticlesSimulation_simulate_detector_response_def
      DetectorBoundarySimulation_simulate_detector_response_def no_delay_def)

text \<open>
  Claim C3. The momentum-weighted response selects the same rows as the rotated-rectangle
  response. In the code its query is the square of half-width 0.3535534 with no line
  inequalities. For an up-down detector at the origin, a lepton at \<open>(0.3, 0.3)\<close> lies in the
  square and outside the rectangle, and a lepton at \<open>(0, 0.45)\<close> lies in the rectangle and
  outside the square: the two selections differ on both.
\<close>

theorem signal_selection_is_the_square_not_the_rectangle:
  "DetectorSignalSimulation_where [row_at (3 / 10) (3 / 10) 2]
        origin_cluster (station_at (0, 0)) (detector_at_centre ''UD'')
     = [row_at (3 / 10) (3 / 10) 2]
   \<and> DetectorBoundarySimulation_where [row_at (3 / 10) (3 / 10) 2]
        origin_cluster (station_at (0, 0)) (detector_at_centre ''UD'') = Inr []
   \<and> DetectorSignalSimulation_where [row_at 0 (45 / 100) 2]
        origin_cluster (station_at (0, 0)) (detector_at_centre ''UD'') = []
   \<and> DetectorBoundarySimulation_where [row_at 0 (45 / 100) 2]
        origin_cluster (station_at (0, 0)) (detector_at_centre ''UD'')
     = Inr [row_at 0 (45 / 100) 2]"
  by (simp add: centre_of_example boundary_where_example
      DetectorSignalSimulation_where_def
      DetectorSignalSimulation_query_def
      DetectorBoundarySimulation_query_def row_at_def fmt_f_def Let_def)

section \<open>Trigger and GPS time: results\<close>

lemma py_sum_bools_all_True: "py_sum_bools (map (\<lambda>x. True) xs) = int (length xs)"
  by (induction xs) (simp_all add: py_sum_bools_def)

text \<open>
  Claim C5. \<open>simulate_trigger\<close> returns true exactly when at least two of the detector
  observables have \<open>n > 0\<close>; the answer depends on how many there are, not on which.
\<close>

theorem trigger_iff_two_detectors_hit:
  "simulate_trigger detector_observables \<longleftrightarrow>
     2 \<le> length (filter (\<lambda>observables. num_val (obs_n observables) > 0) detector_observables)"
  by (simp add: simulate_trigger_def py_sum_bools_all_True)

lemma hit_test:
  "(num_val (case station_observables k of None \<Rightarrow> PyInt (- 1) | Some v \<Rightarrow> v) > 0)
     = (case station_observables k of None \<Rightarrow> False | Some v \<Rightarrow> num_val v > 0)"
  by (simp split: option.splits)

lemma arrival_times_present:
  "list_all (\<lambda>i. station_observables (''t'' @ fmt_d i) \<noteq> None)
       (filter (reports_hit station_observables) ids)
   \<Longrightarrow> arrival_times station_observables ids =
       Inr (List.map_filter (\<lambda>i. station_observables (''t'' @ fmt_d i))
              (filter (reports_hit station_observables) ids))"
proof (induction ids)
  case Nil
  then show ?case by (simp add: List.map_filter_simps)
next
  case (Cons i ids)
  show ?case
  proof (cases "reports_hit station_observables i")
    case True
    with Cons.prems obtain t where t: "station_observables (''t'' @ fmt_d i) = Some t"
      by auto
    from True Cons.prems have rest: "list_all (\<lambda>i. station_observables (''t'' @ fmt_d i) \<noteq> None)
       (filter (reports_hit station_observables) ids)" by simp
    from True have h: "num_val (case station_observables (''n'' @ fmt_d i) of
                    None \<Rightarrow> PyInt (- 1) | Some v \<Rightarrow> v) > 0"
      by (simp add: reports_hit_def hit_test)
    show ?thesis using True t h Cons.IH [OF rest]
      by (simp add: List.map_filter_simps)
  next
    case False
    then have h: "\<not> num_val (case station_observables (''n'' @ fmt_d i) of
                    None \<Rightarrow> PyInt (- 1) | Some v \<Rightarrow> v) > 0"
      by (simp add: reports_hit_def hit_test)
    from False Cons.prems have rest: "list_all (\<lambda>i. station_observables (''t'' @ fmt_d i) \<noteq> None)
       (filter (reports_hit station_observables) ids)" by simp
    show ?thesis using False h Cons.IH [OF rest] by simp
  qed
qed

lemma arrival_times_qualifying:
  "times_present station_observables \<Longrightarrow>
     arrival_times station_observables [1, 2, 3, 4] = Inr (qualifying_times station_observables)"
  unfolding times_present_def qualifying_times_def qualifying_def
  by (rule arrival_times_present)

lemma length_map_filter_present:
  "list_all (\<lambda>i. f i \<noteq> None) xs \<Longrightarrow> length (List.map_filter f xs) = length xs"
  by (induction xs) (auto simp add: List.map_filter_simps)

lemma length_qualifying_times:
  "times_present station_observables \<Longrightarrow>
     length (qualifying_times station_observables) = length (qualifying station_observables)"
  unfolding times_present_def qualifying_times_def
  by (rule length_map_filter_present)

lemma simulate_gps_quiet:
  assumes "times_present station_observables"
    and "length (qualifying station_observables) < 2"
  shows "simulate_gps station_observables shower gps_offset gps_uncertainty =
           Inr station_observables"
proof -
  have at: "arrival_times station_observables [1, 2, 3, 4] =
      Inr (qualifying_times station_observables)"
    by (rule arrival_times_qualifying [OF assms(1)])
  show ?thesis
    unfolding simulate_gps_def at
    using assms(2) length_qualifying_times [OF assms(1)] by simp
qed

lemma simulate_gps_stamps:
  assumes "times_present station_observables"
    and "2 \<le> length (qualifying station_observables)"
  shows "simulate_gps station_observables shower gps_offset gps_uncertainty =
           Inr (with_gps_timestamp station_observables
                  (ext_timestamp shower
                     + py_int (gps_trigger_time station_observables
                                 + gps_offset + gps_uncertainty)))"
proof -
  have at: "arrival_times station_observables [1, 2, 3, 4] =
      Inr (qualifying_times station_observables)"
    by (rule arrival_times_qualifying [OF assms(1)])
  show ?thesis
    unfolding simulate_gps_def at with_gps_timestamp_def gps_trigger_time_def
    using assms(2) length_qualifying_times [OF assms(1)] by (simp add: Let_def)
qed

text \<open>
  Claim C4. For station observables in which every qualifying detector has its arrival time:
  with fewer than two qualifying detectors \<open>simulate_gps\<close> returns the observables unchanged,
  without an error; with at least two it adds the time stamp fields, computed from the
  second smallest qualifying arrival time (index 1 of the ascending sort).
\<close>

theorem gps_quiet_below_two_else_second_smallest:
  assumes "times_present station_observables"
  shows "(length (qualifying station_observables) < 2 \<longrightarrow>
            simulate_gps station_observables shower gps_offset gps_uncertainty =
              Inr station_observables)
       \<and> (2 \<le> length (qualifying station_observables) \<longrightarrow>
            simulate_gps station_observables shower gps_offset gps_uncertainty =
              Inr (with_gps_timestamp station_observables
                     (ext_timestamp shower
                        + py_int (gps_trigger_time station_observables
                                    + gps_offset + gps_uncertainty))))"
  using simulate_gps_quiet [OF assms] simulate_gps_stamps [OF assms]
  by simp

text \<open>
  The theorem at the scenario \<open>t1 = 3.0, t2 = 5.0, t3 = t4 = -999\<close> with
  \<open>n1 = n2 = 1, n3 = n4 = 0\<close>, where the trigger time is 5, and at a station with one
  qualifying detector.
\<close>

theorem gps_quiet_below_two_else_second_smallest_witness:
  "simulate_gps (observables_of (PyInt 1) (PyInt 1) (PyFloat 0) (PyFloat 0)
                   (PyFloat 3) (PyFloat 5) (PyInt (- 999)) (PyInt (- 999))) shower_zero 0 0
     = Inr (with_gps_timestamp
              (observables_of (PyInt 1) (PyInt 1) (PyFloat 0) (PyFloat 0)
                 (PyFloat 3) (PyFloat 5) (PyInt (- 999)) (PyInt (- 999)))
              (1000000000 * 1000000000 + 5))
   \<and> gps_trigger_time (observables_of (PyInt 1) (PyInt 1) (PyFloat 0) (PyFloat 0)
                 (PyFloat 3) (PyFloat 5) (PyInt (- 999)) (PyInt (- 999))) = 5
   \<and> simulate_gps (observables_of (PyInt 1) (PyFloat 0) (PyFloat 0) (PyFloat 0)
                   (PyFloat 3) (PyInt (- 999)) (PyInt (- 999)) (PyInt (- 999))) shower_zero 0 0
     = Inr (observables_of (PyInt 1) (PyFloat 0) (PyFloat 0) (PyFloat 0)
                   (PyFloat 3) (PyInt (- 999)) (PyInt (- 999)) (PyInt (- 999)))"
proof -
  let ?two = "observables_of (PyInt 1) (PyInt 1) (PyFloat 0) (PyFloat 0)
                 (PyFloat 3) (PyFloat 5) (PyInt (- 999)) (PyInt (- 999))"
  let ?one = "observables_of (PyInt 1) (PyFloat 0) (PyFloat 0) (PyFloat 0)
                   (PyFloat 3) (PyInt (- 999)) (PyInt (- 999)) (PyInt (- 999))"
  have q2: "length (qualifying ?two) = 2" by (simp add: example_keys)
  have q1: "length (qualifying ?one) = 1" by (simp add: example_keys)
  have tt: "gps_trigger_time ?two = 5"
    by (simp add: gps_trigger_time_def example_times)
  have a: "simulate_gps ?two shower_zero 0 0
     = Inr (with_gps_timestamp ?two (ext_timestamp shower_zero + py_int (gps_trigger_time ?two + 0 + 0)))"
    using gps_quiet_below_two_else_second_smallest [OF example_present, of _ _ _ _ _ _ _ _ shower_zero 0 0] q2
    by simp
  have b: "simulate_gps ?one shower_zero 0 0 = Inr ?one"
    using gps_quiet_below_two_else_second_smallest [OF example_present, of _ _ _ _ _ _ _ _ shower_zero 0 0] q1
    by simp
  show ?thesis using a b tt by (simp add: shower_zero_def py_int_def)
qed

text \<open>
  Claim C7, as amended. When \<open>simulate_gps\<close> stamps the observables, the absolute time is the
  shower's \<open>ext_timestamp\<close> plus \<open>int(trigger_time + gps_offset + gps_uncertainty)\<close>, where
  \<open>int\<close> truncates towards zero; it is split into \<open>timestamp = e div 10^9\<close> and
  \<open>nanoseconds = e mod 10^9\<close>, so that \<open>timestamp * 10^9 + nanoseconds = e\<close> exactly, with
  the nanoseconds from 0 up to \<open>10^9 - 1\<close>.
\<close>

theorem gps_timestamp_truncated_and_split:
  assumes "times_present station_observables"
    and "2 \<le> length (qualifying station_observables)"
  shows "\<exists>e. e = ext_timestamp shower
                + py_int (gps_trigger_time station_observables + gps_offset + gps_uncertainty)
     \<and> simulate_gps station_observables shower gps_offset gps_uncertainty =
         Inr (station_observables
               (''ext_timestamp'' \<mapsto> PyInt e,
                ''timestamp'' \<mapsto> PyInt (e div 1000000000),
                ''nanoseconds'' \<mapsto> PyInt (e mod 1000000000)))
     \<and> (e div 1000000000) * 1000000000 + e mod 1000000000 = e
     \<and> 0 \<le> e mod 1000000000 \<and> e mod 1000000000 < 1000000000"
  using simulate_gps_stamps [OF assms, of shower gps_offset gps_uncertainty]
  by (simp add: with_gps_timestamp_def)

text \<open>The theorem at arrival times 3.0 and 5.7: the stamp is the shower's plus 5.\<close>

theorem gps_timestamp_truncated_and_split_witness:
  "(\<exists>e. e = ext_timestamp shower_zero + 5
     \<and> simulate_gps (observables_of (PyInt 1) (PyInt 1) (PyFloat 0) (PyFloat 0)
                 (PyFloat 3) (PyFloat (57 / 10)) (PyInt (- 999)) (PyInt (- 999))) shower_zero 0 0 =
         Inr ((observables_of (PyInt 1) (PyInt 1) (PyFloat 0) (PyFloat 0)
                 (PyFloat 3) (PyFloat (57 / 10)) (PyInt (- 999)) (PyInt (- 999)))
               (''ext_timestamp'' \<mapsto> PyInt e,
                ''timestamp'' \<mapsto> PyInt (e div 1000000000),
                ''nanoseconds'' \<mapsto> PyInt (e mod 1000000000)))
     \<and> (e div 1000000000) * 1000000000 + e mod 1000000000 = e)"
proof -
  let ?d = "observables_of (PyInt 1) (PyInt 1) (PyFloat 0) (PyFloat 0)
                 (PyFloat 3) (PyFloat (57 / 10)) (PyInt (- 999)) (PyInt (- 999))"
  have q2: "2 \<le> length (qualifying ?d)" by (simp add: example_keys)
  have tt: "gps_trigger_time ?d = 57 / 10"
    by (simp add: gps_trigger_time_def example_times)
  have v: "py_int (gps_trigger_time ?d + 0 + 0) = 5"
    unfolding tt by (simp add: py_int_def)
  show ?thesis
    using gps_timestamp_truncated_and_split [OF example_present q2, of shower_zero 0 0]
    unfolding v by simp
qed

text \<open>
  With the trigger time 5.7 and no offset the code adds 5 to the shower's time stamp, where
  rounding to the nearest integer would add 6.
\<close>

theorem gps_truncates_counterexample:
  "simulate_gps (observables_of (PyInt 1) (PyInt 1) (PyFloat 0) (PyFloat 0)
                   (PyFloat 3) (PyFloat (57 / 10)) (PyInt (- 999)) (PyInt (- 999))) shower_zero 0 0
     = Inr (with_gps_timestamp
              (observables_of (PyInt 1) (PyInt 1) (PyFloat 0) (PyFloat 0)
                 (PyFloat 3) (PyFloat (57 / 10)) (PyInt (- 999)) (PyInt (- 999)))
              (ext_timestamp shower_zero + 5))
   \<and> gps_trigger_time (observables_of (PyInt 1) (PyInt 1) (PyFloat 0) (PyFloat 0)
                 (PyFloat 3) (PyFloat (57 / 10)) (PyInt (- 999)) (PyInt (- 999))) = 57 / 10
   \<and> ext_timestamp shower_zero + round (57 / 10 + 0 + 0 :: real) = ext_timestamp shower_zero + 6"
proof -
  let ?d = "observables_of (PyInt 1) (PyInt 1) (PyFloat 0) (PyFloat 0)
                 (PyFloat 3) (PyFloat (57 / 10)) (PyInt (- 999)) (PyInt (- 999))"
  have q2: "2 \<le> length (qualifying ?d)" by (simp add: example_keys)
  have tt: "gps_trigger_time ?d = 57 / 10"
    by (simp add: gps_trigger_time_def example_times)
  have v: "py_int (gps_trigger_time ?d + 0 + 0) = 5"
    unfolding tt by (simp add: py_int_def)
  have rd: "round (57 / 10 + 0 + 0 :: real) = 6" by (simp add: round_def)
  have a: "simulate_gps ?d shower_zero 0 0
     = Inr (with_gps_timestamp ?d (ext_timestamp shower_zero + 5))"
    using simulate_gps_stamps [OF example_present q2, of shower_zero 0 0]
    unfolding v .
  show ?thesis unfolding a tt rd by simp
qed

section \<open>Shower parameters: results\<close>

text \<open>
  Claim C8. For \<open>alpha\<close> and the source azimuth both in the range from \<open>-\<pi>\<close> to \<open>\<pi>\<close>, the
  shower azimuth lies in the half-open interval \<open>(-\<pi>, \<pi>]\<close>, and it is the sum of the two or
  the sum moved by \<open>2\<pi>\<close> once.
\<close>

theorem shower_azimuth_in_range:
  assumes "- pi \<le> alpha" "alpha \<le> pi" "- pi \<le> header_azimuth" "header_azimuth \<le> pi"
  shows "- pi < shower_azimuth alpha header_azimuth \<and> shower_azimuth alpha header_azimuth \<le> pi
    \<and> (shower_azimuth alpha header_azimuth = alpha + header_azimuth
       \<or> shower_azimuth alpha header_azimuth = alpha + header_azimuth - 2 * pi
       \<or> shower_azimuth alpha header_azimuth = alpha + header_azimuth + 2 * pi)"
proof -
  have p: "0 < pi" by simp
  consider (hi) "alpha + header_azimuth > pi"
    | (lo) "alpha + header_azimuth \<le> - pi"
    | (mid) "\<not> alpha + header_azimuth > pi" "\<not> alpha + header_azimuth \<le> - pi"
    by linarith
  then show ?thesis
  proof cases
    case hi
    then have "shower_azimuth alpha header_azimuth = alpha + header_azimuth - 2 * pi"
      by (simp add: shower_azimuth_def Let_def)
    with hi assms p show ?thesis by linarith
  next
    case lo
    with p have "\<not> alpha + header_azimuth > pi" by linarith
    with lo have "shower_azimuth alpha header_azimuth = alpha + header_azimuth + 2 * pi"
      by (simp add: shower_azimuth_def Let_def)
    with lo assms p show ?thesis by linarith
  next
    case mid
    then have "shower_azimuth alpha header_azimuth = alpha + header_azimuth"
      by (simp add: shower_azimuth_def Let_def)
    with mid show ?thesis by linarith
  qed
qed

text \<open>The boundary cases \<open>alpha = \<pi>\<close> with azimuth \<open>\<pi>\<close>, and \<open>alpha = -\<pi>\<close> with azimuth \<open>-\<pi>\<close>.\<close>

theorem shower_azimuth_in_range_witness:
  "shower_azimuth pi pi = 0 \<and> shower_azimuth (- pi) (- pi) = 0
   \<and> - pi < shower_azimuth pi pi \<and> shower_azimuth pi pi \<le> pi
   \<and> - pi < shower_azimuth (- pi) (- pi) \<and> shower_azimuth (- pi) (- pi) \<le> pi"
proof -
  have a: "- pi \<le> pi" by simp
  have r1: "- pi < shower_azimuth pi pi \<and> shower_azimuth pi pi \<le> pi"
    using shower_azimuth_in_range [of pi pi] by simp
  have r2: "- pi < shower_azimuth (- pi) (- pi) \<and> shower_azimuth (- pi) (- pi) \<le> pi"
    using shower_azimuth_in_range [of "- pi" "- pi"] by simp
  have v1: "shower_azimuth pi pi = 0" by (simp add: shower_azimuth_def Let_def)
  have v2: "shower_azimuth (- pi) (- pi) = 0" by (simp add: shower_azimuth_def Let_def)
  show ?thesis using r1 r2 v1 v2 by simp
qed

text \<open>
  Claim C10. \<open>_prepare_cluster_for_shower\<close> sets the pose of the cluster to
  \<open>(-x', -y', -alpha)\<close>, with \<open>(x', y')\<close> the core offset rotated by \<open>-alpha\<close>. The code computes
  the rotated offset and then calls \<open>self.cluster.set_coordinates(-xp, -yp, 0, -alpha)\<close>;
  the class \<open>BaseCluster\<close> defines \<open>set_xyalpha_coordinates\<close> and
  \<open>set_rphialpha_coordinates\<close> and no \<open>set_coordinates\<close>, so the call raises and the pose
  is not set.
\<close>

theorem prepare_cluster_calls_undefined_setter:
  "prepare_cluster_for_shower x y alpha c = Inl (AttributeError ''set_coordinates'')"
  by (simp add: prepare_cluster_for_shower_def BaseCluster_setter_def Let_def)

text \<open>
  The setter the class does define gives what the claim describes: with the pose
  \<open>(-x', -y', -alpha)\<close> a point at the core offset \<open>(x, y)\<close> of the cluster frame lands on the
  global origin, and the stations are untouched.
\<close>

lemma repose_with_xyalpha_setter:
  "Station_get_xyalpha_coordinates
     (BaseCluster_set_xyalpha_coordinates
        (- (x * cos (- alpha) - y * sin (- alpha)))
        (- (x * sin (- alpha) + y * cos (- alpha))) (- alpha) c)
     \<lparr>station_id = 0, position = (x, y), angle = 0, detectors = None\<rparr>
   = (0, 0, - alpha)"
  by (simp add: Station_get_xyalpha_coordinates_def BaseCluster_get_xyalpha_coordinates_def
      BaseCluster_set_xyalpha_coordinates_def Let_def algebra_simps)

section \<open>Geometry: results\<close>

text \<open>
  Claim C9. The absolute centre of a detector is the absolute position of its station plus
  the detector's local offset rotated by the station's absolute rotation; the station's
  absolute pose is the cluster position plus the station offset rotated by the cluster
  rotation, the angles added. Each level composes once, Detector to Station to Cluster.
\<close>

theorem detector_xy_composes_through_station_and_cluster:
  "Station_get_xyalpha_coordinates c s =
     compose_pose (BaseCluster_get_xyalpha_coordinates c) (station_local_pose s)
   \<and> Detector_get_xy_coordinates c s d =
     (case compose_pose (Station_get_xyalpha_coordinates c s) (det_x d, det_y d, 0) of
        (x, y, a) \<Rightarrow> (x, y))
   \<and> Detector_get_xy_coordinates c s d =
     (cl_x c + (fst (position s) * cos (cl_alpha c) - snd (position s) * sin (cl_alpha c))
        + (det_x d * cos (cl_alpha c + angle s) - det_y d * sin (cl_alpha c + angle s)),
      cl_y c + (fst (position s) * sin (cl_alpha c) + snd (position s) * cos (cl_alpha c))
        + (det_x d * sin (cl_alpha c + angle s) + det_y d * cos (cl_alpha c + angle s)))"
  by (simp add: Detector_get_xy_coordinates_def Station_get_xyalpha_coordinates_def
      BaseCluster_get_xyalpha_coordinates_def compose_pose_def rotate_def
      station_local_pose_def Let_def split: prod.splits)

lemma Station_add_detectors_ok:
  "Station_add_detectors s dets =
     Inr (s\<lparr>detectors :=
            (if dets = [] then detectors s
             else Some ((case detectors s of None \<Rightarrow> [] | Some ds \<Rightarrow> ds)
                        @ map (\<lambda>(x, y, orientation').
                                 \<lparr>det_x = x, det_y = y, orientation = orientation'\<rparr>) dets))\<rparr>)"
proof (induction dets arbitrary: s)
  case Nil
  then show ?case by simp
next
  case (Cons a dets)
  obtain x y o' where a: "a = (x, y, o')" by (cases a)
  show ?case
    unfolding a
    by (simp add: Cons.IH Station_add_detector_def Detector_init_def)
qed

lemma Station_init_ok:
  "Station_init sid pos ang dets =
     Inr \<lparr>station_id = sid, position = pos, angle = ang,
          detectors = (if dets = [] then None
                       else Some (map (\<lambda>(x, y, orientation').
                                 \<lparr>det_x = x, det_y = y, orientation = orientation'\<rparr>) dets))\<rparr>"
  by (simp add: Station_init_def Station_add_detectors_ok)

text \<open>
  Claim C6, as amended. Construction accepts every orientation string: \<open>Detector.__init__\<close>
  and \<open>Station.__init__\<close> store it as given and raise nothing. An orientation other than
  \<open>UD\<close> and \<open>LR\<close> is reported by \<open>get_corners\<close>, on each call, and never replaced by one of
  the two.
\<close>

theorem orientation_checked_by_get_corners_only:
  "Detector_init x y orientation' =
     Inr \<lparr>det_x = x, det_y = y, orientation = orientation'\<rparr>
   \<and> Station_init sid pos ang dets =
     Inr \<lparr>station_id = sid, position = pos, angle = ang,
          detectors = (if dets = [] then None
                       else Some (map (\<lambda>(x, y, orientation').
                                 \<lparr>det_x = x, det_y = y, orientation = orientation'\<rparr>) dets))\<rparr>
   \<and> (orientation d \<noteq> ''UD'' \<and> orientation d \<noteq> ''LR'' \<longrightarrow>
        Detector_get_corners c s d = Inl (UnknownDetectorOrientation (orientation d)))
   \<and> (orientation d = ''UD'' \<or> orientation d = ''LR'' \<longrightarrow>
        (\<exists>corners. Detector_get_corners c s d = Inr corners \<and> length corners = 4))"
  by (auto simp add: Detector_init_def Station_init_ok Detector_get_corners_def Let_def
      split: prod.splits)

text \<open>The theorem at a detector of orientation \<open>XX\<close>, and at one of orientation \<open>UD\<close>.\<close>

theorem orientation_checked_by_get_corners_only_witness:
  "Detector_init 0 0 ''XX'' = Inr (detector_at_centre ''XX'')
   \<and> Detector_get_corners origin_cluster (station_at (0, 0)) (detector_at_centre ''XX'')
     = Inl (UnknownDetectorOrientation ''XX'')
   \<and> (\<exists>corners. Detector_get_corners origin_cluster (station_at (0, 0))
                    (detector_at_centre ''UD'') = Inr corners \<and> length corners = 4)"
proof -
  have o: "orientation (detector_at_centre ''XX'') = ''XX''"
    "orientation (detector_at_centre ''UD'') = ''UD''"
    by (simp_all add: detector_at_centre_def)
  have i: "Detector_init 0 0 ''XX'' = Inr (detector_at_centre ''XX'')"
    using orientation_checked_by_get_corners_only
      [of 0 0 "''XX''" 1 "(0, 0)" 0 "[]" "detector_at_centre ''XX''" origin_cluster
          "station_at (0, 0)"]
    by (simp add: detector_at_centre_def)
  have a: "Detector_get_corners origin_cluster (station_at (0, 0)) (detector_at_centre ''XX'')
     = Inl (UnknownDetectorOrientation ''XX'')"
    using orientation_checked_by_get_corners_only
      [of 0 0 "''XX''" 1 "(0, 0)" 0 "[]" "detector_at_centre ''XX''" origin_cluster
          "station_at (0, 0)"]
    unfolding o by simp
  have b: "\<exists>corners. Detector_get_corners origin_cluster (station_at (0, 0))
                    (detector_at_centre ''UD'') = Inr corners \<and> length corners = 4"
    using orientation_checked_by_get_corners_only
      [of 0 0 "''UD''" 1 "(0, 0)" 0 "[]" "detector_at_centre ''UD''" origin_cluster
          "station_at (0, 0)"]
    unfolding o by simp
  show ?thesis using i a b by simp
qed

text \<open>
  Adding a station whose only detector has the orientation \<open>XX\<close> to a new cluster returns the
  cluster with that station and detector, and no error.
\<close>

theorem construction_accepts_any_orientation_counterexample:
  "BaseCluster_add_station (0, 0) 0 [(0, 0, ''XX'')] (BaseCluster_init (0, 0) 0) =
     Inr \<lparr>cl_x = 0, cl_y = 0, cl_alpha = 0,
          stations = Some [\<lparr>station_id = 1, position = (0, 0), angle = 0,
                            detectors = Some [\<lparr>det_x = 0, det_y = 0, orientation = ''XX''\<rparr>]\<rparr>]\<rparr>"
  by (simp add: BaseCluster_add_station_def BaseCluster_init_def Station_init_ok)


end
